theory Spec2Isabelle
  imports Complex_Main "HOL-Library.Word"
begin

section \<open>The sketch \<^verbatim>\<open>stepper_ir.ino\<close> as state-passing functions\<close>

text \<open>
  The sketch keeps its state in global variables and runs \<^verbatim>\<open>loop()\<close> for ever.
  Here the globals are the fields of a record, every function of the sketch takes the
  record and returns it updated, and what \<^verbatim>\<open>loop()\<close> reads from the hardware in one pass
  (the decoded IR frame, the clock, the echo pulse width) is an argument.

  Numbers: \<^verbatim>\<open>millis()\<close> and \<^verbatim>\<open>pulseIn()\<close> are \<^verbatim>\<open>unsigned long\<close> and are 32-bit words, so
  that the clock difference wraps as on the board. The levels and distances are
  \<^verbatim>\<open>int\<close>/\<^verbatim>\<open>long\<close>; they are HOL integers, and every theorem below keeps the levels in
  \<open>[0, 9]\<close>, where no intermediate value leaves even a 16-bit \<^verbatim>\<open>int\<close>
  (the largest threshold is \<open>10 + 5 * 9 = 55\<close>). The \<^verbatim>\<open>float\<close> rates are the rationals
  they denote; \<open>levelToRpm_dyadic\<close> shows that on the levels \<open>1..9\<close> every
  intermediate value is a multiple of \<open>1/8\<close> below \<open>2^24 / 8\<close>, which binary32
  represents exactly, so no rounding takes place there.
\<close>

subsection \<open>Tunables (lines 36-57, 69-70)\<close>

definition RPM_L1 :: rat where "RPM_L1 = 6"
definition RPM_L9 :: rat where "RPM_L9 = 15"

definition BASE_SAFE_CM :: int where "BASE_SAFE_CM = 10"
definition CM_PER_LEVEL :: int where "CM_PER_LEVEL = 5"
definition MIN_CM :: int where "MIN_CM = 2"
definition HYSTERESIS_CM :: int where "HYSTERESIS_CM = 3"

definition PING_INTERVAL_MS :: "32 word" where "PING_INTERVAL_MS = 60"
definition LCD_REFRESH_MS :: "32 word" where "LCD_REFRESH_MS = 100"

definition LED_ON_CM :: int where "LED_ON_CM = 20"
definition LED_OFF_CM :: int where "LED_OFF_CM = 25"

subsection \<open>Arduino core and C library primitives the sketch calls\<close>

text \<open>
  \<^verbatim>\<open>constrain\<close> is the core's macro
  \<^verbatim>\<open>((amt)<(low)?(low):((amt)>(high)?(high):(amt)))\<close>.
\<close>

definition constrain :: "int \<Rightarrow> int \<Rightarrow> int \<Rightarrow> int" where
  "constrain amt low high = (if amt < low then low else if amt > high then high else amt)"

text \<open>C's \<^verbatim>\<open>/\<close> on signed integers truncates towards zero; HOL's \<open>div\<close> rounds down.\<close>

definition c_div :: "int \<Rightarrow> int \<Rightarrow> int" where
  "c_div a b = sgn a * sgn b * (\<bar>a\<bar> div \<bar>b\<bar>)"

text \<open>
  \<^verbatim>\<open>map\<close> is the core's function (WMath.cpp), all in \<^verbatim>\<open>long\<close>:
  \<^verbatim>\<open>return (x - in_min) * (out_max - out_min) / (in_max - in_min) + out_min;\<close>
\<close>

definition map_long :: "int \<Rightarrow> int \<Rightarrow> int \<Rightarrow> int \<Rightarrow> int \<Rightarrow> int" where
  "map_long x in_min in_max out_min out_max =
     c_div ((x - in_min) * (out_max - out_min)) (in_max - in_min) + out_min"

text \<open>Decimal digits of a number, as \<^verbatim>\<open>%d\<close> and \<^verbatim>\<open>%ld\<close> print them.\<close>

fun dec :: "nat \<Rightarrow> string" where
  "dec n = (if n < 10 then [''0123456789'' ! n] else dec (n div 10) @ [''0123456789'' ! (n mod 10)])"

definition fmt_d :: "int \<Rightarrow> string" where
  "fmt_d i = (if i < 0 then CHR ''-'' # dec (nat (- i)) else dec (nat i))"

text \<open>A minimum field width pads on the left with spaces (\<^verbatim>\<open>%3ld\<close>).\<close>

definition fmt_width :: "nat \<Rightarrow> string \<Rightarrow> string" where
  "fmt_width w str = replicate (w - length str) CHR '' '' @ str"

subsection \<open>State (lines 60-71) and what the sketch drives\<close>

text \<open>
  The last four fields are the outputs: the speed handed to \<^verbatim>\<open>stepper.setSpeed\<close>, the
  level written to the LED pin, the two rows of the display memory (the controller keeps
  40 characters per row and the panel shows the first 16), and the number of
  \<^verbatim>\<open>stepper.step(1)\<close> calls. The speed is the value \<^verbatim>\<open>levelToRpm\<close> returns, before the
  library converts its argument. The serial log is left out.
\<close>

record state =
  commandedLevel :: int
  effectiveLevel :: int
  reducing :: bool
  lastPing :: "32 word"
  lastLcd :: "32 word"
  distanceCm :: int
  ledState :: bool
  stepperRpm :: rat
  ledPin :: bool
  lcdRow0 :: string
  lcdRow1 :: string
  stepsIssued :: nat

text \<open>
  One pass of \<^verbatim>\<open>loop()\<close> reads: \<^verbatim>\<open>IrReceiver.decode()\<close> (nothing, or a frame with its
  repeat flag and command byte), \<^verbatim>\<open>millis()\<close>, and the pulse width \<^verbatim>\<open>pulseIn\<close> returns
  if the pass pings (\<open>0\<close> on timeout).
\<close>

record inputs =
  irDecoded :: "(bool \<times> 8 word) option"
  millis :: "32 word"
  echoDuration :: "32 word"

subsection \<open>Helpers (lines 74-118)\<close>

definition levelToRpm :: "int \<Rightarrow> rat" where
  "levelToRpm lvl =
     (if lvl \<le> 0 then 0
      else RPM_L1 + (RPM_L9 - RPM_L1) * of_int (lvl - 1) / 8)"

definition computeSafeCm :: "int \<Rightarrow> int" where
  "computeSafeCm lvl =
     (if lvl \<le> 0 then BASE_SAFE_CM
      else BASE_SAFE_CM + CM_PER_LEVEL * lvl)"

definition levelFromIrCommand :: "8 word \<Rightarrow> int" where
  "levelFromIrCommand cmd =
     (if cmd = 0x16 then 0
      else if cmd = 0x0C then 1
      else if cmd = 0x18 then 2
      else if cmd = 0x5E then 3
      else if cmd = 0x08 then 4
      else if cmd = 0x1C then 5
      else if cmd = 0x5A then 6
      else if cmd = 0x42 then 7
      else if cmd = 0x52 then 8
      else if cmd = 0x4A then 9
      else - 1)"

text \<open>
  \<^verbatim>\<open>readUltrasonicCm\<close>, as a function of the pulse width. The cast to \<^verbatim>\<open>long\<close> reads
  the quotient as a signed 32-bit value.
\<close>

definition readUltrasonicCm :: "32 word \<Rightarrow> int" where
  "readUltrasonicCm duration =
     (if duration = 0 then - 1
      else (let cm = sint (duration div 58)
            in if cm < MIN_CM then MIN_CM else cm))"

definition applyLevel :: "int \<Rightarrow> state \<Rightarrow> state" where
  "applyLevel lvl s =
     (let e = constrain lvl 0 9
      in s\<lparr>effectiveLevel := e, stepperRpm := levelToRpm e\<rparr>)"

subsection \<open>The display (lines 120-141)\<close>

text \<open>
  \<^verbatim>\<open>snprintf(line1, sizeof(line1), "L:%d E:%d D:%3ldcm", ...)\<close> into a buffer of 17
  bytes keeps at most 16 characters.
\<close>

definition line1 :: "state \<Rightarrow> string" where
  "line1 s =
     take 16 (''L:'' @ fmt_d (commandedLevel s) @ '' E:'' @ fmt_d (effectiveLevel s)
              @ '' D:'' @ fmt_width 3 (fmt_d (if distanceCm s < 0 then 0 else distanceCm s))
              @ ''cm'')"

text \<open>
  \<^verbatim>\<open>lcd.print(txt); for (int i = strlen(txt); i < 16; i++) lcd.print(' ');\<close>
  sends these characters.
\<close>

definition print_padded :: "string \<Rightarrow> string" where
  "print_padded txt = txt @ replicate (16 - length txt) CHR '' ''"

text \<open>The characters \<^verbatim>\<open>updateLcd\<close> sends after \<^verbatim>\<open>setCursor(0, 0)\<close>.\<close>

definition lcdLine1 :: "state \<Rightarrow> string" where
  "lcdLine1 s = print_padded (line1 s)"

text \<open>The characters \<^verbatim>\<open>updateLcd\<close> sends after \<^verbatim>\<open>setCursor(0, 1)\<close>.\<close>

definition lcdLine2 :: "state \<Rightarrow> string" where
  "lcdLine2 s =
     (if distanceCm s \<ge> 0 \<and> distanceCm s < 20
      then print_padded ''Obstacle Detected''
      else ''MODE: NORMAL   '')"

text \<open>
  Printing from column 0 overwrites the row from its start and leaves the rest of the
  row as it was.
\<close>

definition lcdPrintAt0 :: "string \<Rightarrow> string \<Rightarrow> string" where
  "lcdPrintAt0 txt row = take 40 (txt @ drop (length txt) row)"

definition updateLcd :: "state \<Rightarrow> state" where
  "updateLcd s =
     s\<lparr>lcdRow0 := lcdPrintAt0 (lcdLine1 s) (lcdRow0 s),
       lcdRow1 := lcdPrintAt0 (lcdLine2 s) (lcdRow1 s)\<rparr>"

text \<open>What the 16-column panel shows of a row.\<close>

definition visible :: "string \<Rightarrow> string" where
  "visible row = take 16 row"

subsection \<open>\<^verbatim>\<open>setup()\<close> (lines 143-168)\<close>

text \<open>The globals as initialised, the display cleared.\<close>

definition globals0 :: state where
  "globals0 =
     \<lparr>commandedLevel = 0, effectiveLevel = 0, reducing = False,
      lastPing = 0, lastLcd = 0, distanceCm = - 1, ledState = False,
      stepperRpm = 0, ledPin = False,
      lcdRow0 = replicate 40 CHR '' '', lcdRow1 = replicate 40 CHR '' '',
      stepsIssued = 0\<rparr>"

definition setup_sketch :: state where
  "setup_sketch =
     (applyLevel 0 (globals0\<lparr>commandedLevel := 0\<rparr>))\<lparr>reducing := False, ledPin := False\<rparr>"

subsection \<open>\<^verbatim>\<open>loop()\<close> (lines 170-233), block by block\<close>

text \<open>IR handling, lines 172-186 (\<^verbatim>\<open>IR_DIAGNOSTIC\<close> is 0).\<close>

definition irHandling :: "(bool \<times> 8 word) option \<Rightarrow> state \<Rightarrow> state" where
  "irHandling ir s =
     (case ir of
        None \<Rightarrow> s
      | Some (is_repeat, command) \<Rightarrow>
          if \<not> is_repeat then
            (let lvl = levelFromIrCommand command
             in if lvl \<ge> 0 \<and> lvl \<le> 9 then s\<lparr>commandedLevel := lvl\<rparr> else s)
          else s)"

text \<open>Regulation, lines 193-208, on the sample already stored in \<open>distanceCm\<close>.\<close>

definition regulate :: "state \<Rightarrow> state" where
  "regulate s =
     (let safeCm = computeSafeCm (commandedLevel s)
      in if distanceCm s < 0 then
           applyLevel (commandedLevel s) (s\<lparr>reducing := False\<rparr>)
         else if distanceCm s < safeCm then
           (let clamped = constrain (distanceCm s) MIN_CM safeCm;
                reduced = (if commandedLevel s = 0 then 0
                           else map_long clamped MIN_CM safeCm 0 (commandedLevel s))
            in applyLevel reduced (s\<lparr>reducing := (reduced < commandedLevel s)\<rparr>))
         else if distanceCm s > safeCm + HYSTERESIS_CM then
           applyLevel (commandedLevel s) (s\<lparr>reducing := False\<rparr>)
         else s)"

text \<open>LED control, lines 210-219.\<close>

definition ledControl :: "state \<Rightarrow> state" where
  "ledControl s =
     (let s1 = (if distanceCm s \<ge> 0 then
                  (let s2 = (if \<not> ledState s \<and> distanceCm s < LED_ON_CM
                             then s\<lparr>ledState := True\<rparr> else s)
                   in if ledState s2 \<and> distanceCm s2 > LED_OFF_CM
                      then s2\<lparr>ledState := False\<rparr> else s2)
                else s)
      in s1\<lparr>ledPin := ledState s1\<rparr>)"

text \<open>
  The body of the ping branch, lines 191-219, for the clock value \<open>now\<close> and the
  sample \<open>d\<close> that \<^verbatim>\<open>readUltrasonicCm()\<close> returned: one regulation tick.
\<close>

definition sampleTick :: "32 word \<Rightarrow> int \<Rightarrow> state \<Rightarrow> state" where
  "sampleTick now d s = ledControl (regulate (s\<lparr>lastPing := now, distanceCm := d\<rparr>))"

definition pingDue :: "32 word \<Rightarrow> state \<Rightarrow> bool" where
  "pingDue now s = (now - lastPing s \<ge> PING_INTERVAL_MS)"

definition pingBlock :: "inputs \<Rightarrow> state \<Rightarrow> state" where
  "pingBlock inp s =
     (if pingDue (millis inp) s
      then sampleTick (millis inp) (readUltrasonicCm (echoDuration inp)) s
      else s)"

text \<open>LCD refresh, lines 223-226.\<close>

definition lcdBlock :: "32 word \<Rightarrow> state \<Rightarrow> state" where
  "lcdBlock now s =
     (if now - lastLcd s \<ge> LCD_REFRESH_MS then updateLcd (s\<lparr>lastLcd := now\<rparr>) else s)"

text \<open>Driving the stepper, lines 229-231.\<close>

definition driveBlock :: "state \<Rightarrow> state" where
  "driveBlock s = (if effectiveLevel s > 0 then s\<lparr>stepsIssued := stepsIssued s + 1\<rparr> else s)"

definition loop :: "inputs \<Rightarrow> state \<Rightarrow> state" where
  "loop inp s = driveBlock (lcdBlock (millis inp) (pingBlock inp (irHandling (irDecoded inp) s)))"

text \<open>The state after \<^verbatim>\<open>setup()\<close> and one pass of \<^verbatim>\<open>loop()\<close> per element of the list.\<close>

definition run :: "inputs list \<Rightarrow> state" where
  "run inps = foldl (\<lambda>s inp. loop inp s) setup_sketch inps"

section \<open>The properties, as the specification words them\<close>

text \<open>
  The relation between the two levels of the data model: the effective level is at most
  the commanded level when a valid sample indicates that reduction is active, and is the
  commanded level otherwise.
\<close>

definition level_inv :: "state \<Rightarrow> bool" where
  "level_inv s =
     (if 0 \<le> distanceCm s \<and> reducing s
      then effectiveLevel s \<le> commandedLevel s
      else effectiveLevel s = commandedLevel s)"

text \<open>Both levels are levels: integers from 0 to 9.\<close>

definition levels_in_range :: "state \<Rightarrow> bool" where
  "levels_in_range s =
     (0 \<le> commandedLevel s \<and> commandedLevel s \<le> 9
      \<and> 0 \<le> effectiveLevel s \<and> effectiveLevel s \<le> 9)"

text \<open>A sample outside the hysteresis band of level \<open>L\<close> (no echo counts as below).\<close>

definition outsideBand :: "int \<Rightarrow> int \<Rightarrow> bool" where
  "outsideBand L d = (d < computeSafeCm L \<or> computeSafeCm L + HYSTERESIS_CM < d)"

text \<open>
  The interpolation of section 8 of the specification, rounded to the nearest level:
  \<open>round (L * (d - minClamp) / (SafeThreshold L - minClamp))\<close> on the clamped sample.
\<close>

definition interp_rounded :: "int \<Rightarrow> int \<Rightarrow> int" where
  "interp_rounded L d =
     round (of_int (L * (constrain d MIN_CM (computeSafeCm L) - MIN_CM))
            / of_int (computeSafeCm L - MIN_CM) :: rat)"

subsection \<open>Concrete passes of the loop\<close>

text \<open>Key 9 at 60 ms, the ping times out.\<close>

definition pass_key9_noecho :: inputs where
  "pass_key9_noecho = \<lparr>irDecoded = Some (False, 0x4A), millis = 60, echoDuration = 0\<rparr>"

text \<open>Key 1 at 120 ms, echo after 928 us: 16 cm.\<close>

definition pass_key1_16cm :: inputs where
  "pass_key1_16cm = \<lparr>irDecoded = Some (False, 0x0C), millis = 120, echoDuration = 928\<rparr>"

text \<open>Key 5 at 60 ms, echo after 1160 us: 20 cm.\<close>

definition pass_key5_20cm :: inputs where
  "pass_key5_20cm = \<lparr>irDecoded = Some (False, 0x1C), millis = 60, echoDuration = 1160\<rparr>"

text \<open>No key; a pass at the given time with the given pulse width.\<close>

definition pass_idle :: "32 word \<Rightarrow> 32 word \<Rightarrow> inputs" where
  "pass_idle now duration = \<lparr>irDecoded = None, millis = now, echoDuration = duration\<rparr>"

text \<open>Key 1 at 100 ms, 40 ms after the ping of the pass at 60 ms.\<close>

definition pass_key1_early :: inputs where
  "pass_key1_early = \<lparr>irDecoded = Some (False, 0x0C), millis = 100, echoDuration = 928\<rparr>"

section \<open>Basic facts\<close>

declare dec.simps [simp del]

lemmas tunables =
  RPM_L1_def RPM_L9_def BASE_SAFE_CM_def CM_PER_LEVEL_def MIN_CM_def HYSTERESIS_CM_def
  PING_INTERVAL_MS_def LCD_REFRESH_MS_def LED_ON_CM_def LED_OFF_CM_def

lemmas sketch_defs =
  run_def loop_def driveBlock_def lcdBlock_def pingBlock_def pingDue_def sampleTick_def
  ledControl_def regulate_def irHandling_def levelFromIrCommand_def setup_sketch_def
  globals0_def applyLevel_def constrain_def map_long_def c_div_def computeSafeCm_def
  readUltrasonicCm_def levelToRpm_def updateLcd_def lcdPrintAt0_def lcdLine1_def lcdLine2_def
  print_padded_def Let_def

lemmas passes =
  pass_key9_noecho_def pass_key1_16cm_def pass_key5_20cm_def pass_idle_def
  pass_key1_early_def

lemma c_div_nonneg: "0 \<le> a \<Longrightarrow> 0 < b \<Longrightarrow> c_div a b = a div b"
  by (simp add: c_div_def sgn_if)

lemma int_div_less: "(a::int) < L * w \<Longrightarrow> 0 < w \<Longrightarrow> a div w < L"
proof -
  assume a: "a < L * w" and w: "0 < w"
  have "w * (a div w) \<le> a"
    using w by (metis mult_div_mod_eq pos_mod_sign le_add_same_cancel1)
  then have "(a div w) * w < L * w"
    using a by (simp add: mult.commute)
  then show ?thesis
    using w by simp
qed

lemma computeSafeCm_pos: "0 < L \<Longrightarrow> computeSafeCm L = 10 + 5 * L"
  by (simp add: computeSafeCm_def tunables)

lemma computeSafeCm_ge: "10 \<le> computeSafeCm L"
  by (simp add: computeSafeCm_def tunables)

text \<open>
  Binary32 exactness of the rate on the levels 1..9: each intermediate value of
  \<^verbatim>\<open>RPM_L1 + (RPM_L9 - RPM_L1) * (float)(lvl - 1) / 8.0f\<close> is an integer below \<open>2^24\<close>
  divided by 8.
\<close>

lemma levelToRpm_dyadic:
  assumes "1 \<le> lvl" "lvl \<le> 9"
  shows "RPM_L9 - RPM_L1 = of_int 72 / 8"
    and "(RPM_L9 - RPM_L1) * of_int (lvl - 1) = of_int (72 * (lvl - 1)) / 8"
    and "(RPM_L9 - RPM_L1) * of_int (lvl - 1) / 8 = of_int (9 * (lvl - 1)) / 8"
    and "levelToRpm lvl = of_int (48 + 9 * (lvl - 1)) / 8"
    and "\<bar>72 * (lvl - 1)\<bar> < 2 ^ 24" and "\<bar>48 + 9 * (lvl - 1)\<bar> < 2 ^ 24"
  using assms by (simp_all add: levelToRpm_def tunables field_simps)

subsection \<open>Which fields each block touches\<close>

lemma applyLevel_fields [simp]:
  "effectiveLevel (applyLevel lvl s) = constrain lvl 0 9"
  "stepperRpm (applyLevel lvl s) = levelToRpm (constrain lvl 0 9)"
  "reducing (applyLevel lvl s) = reducing s"
  "commandedLevel (applyLevel lvl s) = commandedLevel s"
  "distanceCm (applyLevel lvl s) = distanceCm s"
  "ledState (applyLevel lvl s) = ledState s"
  "lastPing (applyLevel lvl s) = lastPing s"
  by (simp_all add: applyLevel_def Let_def)

lemma regulate_fields [simp]:
  "commandedLevel (regulate s) = commandedLevel s"
  "distanceCm (regulate s) = distanceCm s"
  "ledState (regulate s) = ledState s"
  "lastPing (regulate s) = lastPing s"
  by (simp_all add: regulate_def Let_def)

lemma ledControl_fields [simp]:
  "commandedLevel (ledControl s) = commandedLevel s"
  "effectiveLevel (ledControl s) = effectiveLevel s"
  "reducing (ledControl s) = reducing s"
  "stepperRpm (ledControl s) = stepperRpm s"
  "distanceCm (ledControl s) = distanceCm s"
  "lastPing (ledControl s) = lastPing s"
  by (simp_all add: ledControl_def Let_def)

lemma sampleTick_fields [simp]:
  "commandedLevel (sampleTick now d s) = commandedLevel s"
  "distanceCm (sampleTick now d s) = d"
  "lastPing (sampleTick now d s) = now"
  by (simp_all add: sampleTick_def)

lemma irHandling_fields [simp]:
  "effectiveLevel (irHandling ir s) = effectiveLevel s"
  "reducing (irHandling ir s) = reducing s"
  "stepperRpm (irHandling ir s) = stepperRpm s"
  "distanceCm (irHandling ir s) = distanceCm s"
  "lastPing (irHandling ir s) = lastPing s"
  "ledState (irHandling ir s) = ledState s"
  by (simp_all add: irHandling_def Let_def split: option.splits prod.splits)

lemma lcdBlock_fields [simp]:
  "commandedLevel (lcdBlock now s) = commandedLevel s"
  "effectiveLevel (lcdBlock now s) = effectiveLevel s"
  "reducing (lcdBlock now s) = reducing s"
  "stepperRpm (lcdBlock now s) = stepperRpm s"
  "distanceCm (lcdBlock now s) = distanceCm s"
  "ledState (lcdBlock now s) = ledState s"
  by (simp_all add: lcdBlock_def updateLcd_def)

lemma driveBlock_fields [simp]:
  "commandedLevel (driveBlock s) = commandedLevel s"
  "effectiveLevel (driveBlock s) = effectiveLevel s"
  "reducing (driveBlock s) = reducing s"
  "stepperRpm (driveBlock s) = stepperRpm s"
  "distanceCm (driveBlock s) = distanceCm s"
  "ledState (driveBlock s) = ledState s"
  by (simp_all add: driveBlock_def)

lemma pingDue_irHandling [simp]: "pingDue now (irHandling ir s) = pingDue now s"
  by (simp add: pingDue_def)

subsection \<open>The four branches of the regulation\<close>

lemma regulate_noecho:
  "distanceCm s < 0 \<Longrightarrow> regulate s = applyLevel (commandedLevel s) (s\<lparr>reducing := False\<rparr>)"
  by (simp add: regulate_def Let_def)

lemma regulate_clear:
  "computeSafeCm (commandedLevel s) + HYSTERESIS_CM < distanceCm s \<Longrightarrow>
   regulate s = applyLevel (commandedLevel s) (s\<lparr>reducing := False\<rparr>)"
  using computeSafeCm_ge [of "commandedLevel s"]
  by (simp add: regulate_def Let_def tunables)

lemma regulate_band:
  "computeSafeCm (commandedLevel s) \<le> distanceCm s \<Longrightarrow>
   distanceCm s \<le> computeSafeCm (commandedLevel s) + HYSTERESIS_CM \<Longrightarrow> regulate s = s"
  using computeSafeCm_ge [of "commandedLevel s"]
  by (simp add: regulate_def Let_def tunables)

lemma regulate_stop:
  "commandedLevel s = 0 \<Longrightarrow> 0 \<le> distanceCm s \<Longrightarrow> distanceCm s < computeSafeCm 0 \<Longrightarrow>
   regulate s = applyLevel 0 (s\<lparr>reducing := False\<rparr>)"
  by (simp add: regulate_def Let_def)

lemma map_long_reduce:
  assumes "0 < L" "0 \<le> d" "d < computeSafeCm L"
  shows "map_long (constrain d MIN_CM (computeSafeCm L)) MIN_CM (computeSafeCm L) 0 L
         = (L * (max d MIN_CM - MIN_CM)) div (computeSafeCm L - MIN_CM)"
proof -
  have safe: "computeSafeCm L = 10 + 5 * L"
    using assms(1) by (rule computeSafeCm_pos)
  have cl: "constrain d MIN_CM (computeSafeCm L) = max d MIN_CM"
    using assms by (simp add: constrain_def max_def safe tunables)
  have "0 \<le> (max d MIN_CM - MIN_CM) * L"
    using assms(1) by simp
  moreover have "0 < computeSafeCm L - MIN_CM"
    using assms(1) by (simp add: safe tunables)
  ultimately show ?thesis
    by (simp add: map_long_def cl c_div_nonneg mult.commute)
qed

lemma reduce_less:
  assumes "0 < L" "0 \<le> d" "d < computeSafeCm L"
  shows "0 \<le> (L * (max d MIN_CM - MIN_CM)) div (computeSafeCm L - MIN_CM)"
    and "(L * (max d MIN_CM - MIN_CM)) div (computeSafeCm L - MIN_CM) < L"
proof -
  have safe: "computeSafeCm L = 10 + 5 * L"
    using assms(1) by (rule computeSafeCm_pos)
  let ?w = "computeSafeCm L - MIN_CM"
  let ?x = "max d MIN_CM - MIN_CM"
  have w: "0 < ?w"
    using assms(1) by (simp add: safe tunables)
  have x0: "0 \<le> ?x"
    by simp
  have xw: "?x < ?w"
    using assms by (simp add: safe tunables max_def)
  show "0 \<le> (L * ?x) div ?w"
    using w x0 assms(1) by (simp add: pos_imp_zdiv_nonneg_iff)
  have "L * ?x < L * ?w"
    using xw assms(1) by simp
  then show "(L * ?x) div ?w < L"
    using w by (rule int_div_less)
qed

lemma regulate_reduce:
  assumes "0 < commandedLevel s" "0 \<le> distanceCm s"
    "distanceCm s < computeSafeCm (commandedLevel s)"
  shows "regulate s =
     applyLevel ((commandedLevel s * (max (distanceCm s) MIN_CM - MIN_CM))
                   div (computeSafeCm (commandedLevel s) - MIN_CM))
       (s\<lparr>reducing := True\<rparr>)"
  using assms map_long_reduce [OF assms] reduce_less(2) [OF assms]
  by (simp add: regulate_def Let_def)

section \<open>The safe threshold and the rate\<close>

text \<open>
  Claim C8. For all levels \<open>a\<close>, \<open>b\<close> in \<open>[0, 9]\<close> with \<open>a \<le> b\<close>, the safe threshold of
  \<open>a\<close> is at most the safe threshold of \<open>b\<close>: \<^verbatim>\<open>computeSafeCm\<close> is monotonically
  non-decreasing in the commanded level.
\<close>

theorem computeSafeCm_mono:
  "0 \<le> a \<Longrightarrow> a \<le> b \<Longrightarrow> b \<le> 9 \<Longrightarrow> computeSafeCm a \<le> computeSafeCm b"
  by (simp add: computeSafeCm_def tunables)

theorem computeSafeCm_mono_witness:
  "(0::int) \<le> 2 \<and> (2::int) \<le> 7 \<and> (7::int) \<le> 9
   \<and> computeSafeCm 2 \<le> computeSafeCm 7 \<and> computeSafeCm 2 = 20 \<and> computeSafeCm 7 = 45"
  using computeSafeCm_mono [of 2 7] by (simp add: computeSafeCm_def tunables)

text \<open>
  Claim C9. The level-to-rate conversion is a function of the level alone; level 0 maps
  to the zero rate, every level in \<open>[1, 9]\<close> maps to
  \<open>rate 1 + (rate 9 - rate 1) * (level - 1) / 8\<close>, and level 5 maps exactly to
  \<open>(rate 1 + rate 9) / 2\<close>. (The rates of level 1 and 9 are the two tunables.)
\<close>

theorem levelToRpm_interpolation:
  "levelToRpm 0 = 0 \<and> levelToRpm 1 = RPM_L1 \<and> levelToRpm 9 = RPM_L9 \<and>
   (1 \<le> lvl \<and> lvl \<le> 9 \<longrightarrow>
      levelToRpm lvl = levelToRpm 1 + (levelToRpm 9 - levelToRpm 1) * of_int (lvl - 1) / 8) \<and>
   levelToRpm 5 = (levelToRpm 1 + levelToRpm 9) / 2"
  by (simp add: levelToRpm_def tunables)

theorem levelToRpm_interpolation_witness:
  "(1::int) \<le> 3 \<and> (3::int) \<le> 9
   \<and> levelToRpm 3 = levelToRpm 1 + (levelToRpm 9 - levelToRpm 1) * of_int (3 - 1) / 8
   \<and> levelToRpm 3 = 33 / 4 \<and> levelToRpm 5 = 21 / 2"
  using levelToRpm_interpolation [of 3] by (simp add: levelToRpm_def tunables)

section \<open>One regulation tick\<close>

text \<open>
  Claim C2, as the specification states it, fails on the sketch: with commanded level 5
  and a sample of 20 cm the rounded interpolation is 3, and the sketch applies level 2,
  because the core's \<^verbatim>\<open>map\<close> divides in integers and drops the remainder of \<open>90 / 33\<close>.
\<close>

theorem reduce_is_not_rounded:
  "commandedLevel (run [pass_key5_20cm]) = 5 \<and> distanceCm (run [pass_key5_20cm]) = 20
   \<and> computeSafeCm 5 = 35 \<and> interp_rounded 5 20 = 3
   \<and> effectiveLevel (run [pass_key5_20cm]) = 2"
proof -
  have "interp_rounded 5 20 = round (30 / 11 :: rat)"
    by (simp add: interp_rounded_def computeSafeCm_def constrain_def tunables)
  also have "\<dots> = 3"
    by code_simp
  finally show ?thesis
    by (simp add: sketch_defs tunables passes)
qed

text \<open>
  Claim C2, amended. For every commanded level \<open>L\<close> in \<open>[1, 9]\<close> and every valid sample
  \<open>d\<close> below the safe threshold of \<open>L\<close>, a regulation tick sets the effective level to
  the linear interpolation of the clamped sample from \<open>[MIN_CM, safe threshold]\<close> onto
  \<open>[0, L]\<close> with the quotient truncated, \<open>L * (max d MIN_CM - MIN_CM) div (safe - MIN_CM)\<close>,
  and the reducing flag to whether that is below \<open>L\<close>. At \<open>L = 5\<close>, \<open>d = 20\<close> the level is 2.
\<close>

theorem reduce_truncates:
  assumes "0 < L" "L \<le> 9" "commandedLevel s = L" "0 \<le> d" "d < computeSafeCm L"
  shows "effectiveLevel (sampleTick now d s)
           = (L * (max d MIN_CM - MIN_CM)) div (computeSafeCm L - MIN_CM)
         \<and> reducing (sampleTick now d s)
             = ((L * (max d MIN_CM - MIN_CM)) div (computeSafeCm L - MIN_CM) < L)"
proof -
  let ?s = "s\<lparr>lastPing := now, distanceCm := d\<rparr>"
  let ?r = "(L * (max d MIN_CM - MIN_CM)) div (computeSafeCm L - MIN_CM)"
  have r: "0 \<le> ?r" "?r < L"
    using reduce_less [OF assms(1,4,5)] by simp_all
  have "regulate ?s = applyLevel ?r (?s\<lparr>reducing := True\<rparr>)"
    using regulate_reduce [of ?s] assms by simp
  moreover have "constrain ?r 0 9 = ?r"
    using r assms(2) by (simp add: constrain_def)
  ultimately show ?thesis
    using r by (simp add: sampleTick_def)
qed

theorem reduce_truncates_witness:
  "(0::int) < 5 \<and> (5::int) \<le> 9 \<and> commandedLevel (setup_sketch\<lparr>commandedLevel := 5\<rparr>) = 5
   \<and> (0::int) \<le> 20 \<and> 20 < computeSafeCm 5
   \<and> effectiveLevel (sampleTick 60 20 (setup_sketch\<lparr>commandedLevel := 5\<rparr>)) = 2
   \<and> reducing (sampleTick 60 20 (setup_sketch\<lparr>commandedLevel := 5\<rparr>))"
  using reduce_truncates [of 5 "setup_sketch\<lparr>commandedLevel := 5\<rparr>" 20 60]
  by (simp add: computeSafeCm_def tunables)

text \<open>
  Claim C3. For every commanded level \<open>L\<close> in \<open>[1, 9]\<close> and every sample \<open>d\<close> in
  \<open>[safe threshold, safe threshold + HYSTERESIS_CM]\<close>, one regulation tick leaves the
  effective level and the reducing flag (and the speed set on the stepper) as they were.
\<close>

theorem band_keeps_level:
  assumes "0 < L" "L \<le> 9" "commandedLevel s = L"
    "computeSafeCm L \<le> d" "d \<le> computeSafeCm L + HYSTERESIS_CM"
  shows "effectiveLevel (sampleTick now d s) = effectiveLevel s
         \<and> reducing (sampleTick now d s) = reducing s
         \<and> stepperRpm (sampleTick now d s) = stepperRpm s"
proof -
  let ?s = "s\<lparr>lastPing := now, distanceCm := d\<rparr>"
  have "regulate ?s = ?s"
    using assms by (intro regulate_band) simp_all
  then show ?thesis
    by (simp add: sampleTick_def)
qed

theorem band_keeps_level_witness:
  "(0::int) < 5 \<and> (5::int) \<le> 9 \<and> commandedLevel (run [pass_key5_20cm]) = 5
   \<and> computeSafeCm 5 \<le> 36 \<and> 36 \<le> computeSafeCm 5 + HYSTERESIS_CM
   \<and> effectiveLevel (run [pass_key5_20cm]) = 2 \<and> reducing (run [pass_key5_20cm])
   \<and> effectiveLevel (sampleTick 120 36 (run [pass_key5_20cm])) = 2
   \<and> reducing (sampleTick 120 36 (run [pass_key5_20cm]))"
proof -
  have s: "commandedLevel (run [pass_key5_20cm]) = 5"
    "effectiveLevel (run [pass_key5_20cm]) = 2" "reducing (run [pass_key5_20cm])"
    by (simp_all add: sketch_defs tunables passes)
  have b: "computeSafeCm 5 \<le> 36" "36 \<le> computeSafeCm 5 + HYSTERESIS_CM"
    by (simp_all add: computeSafeCm_def tunables)
  show ?thesis
    using band_keeps_level [of 5 "run [pass_key5_20cm]" 36 120] s b by simp
qed

text \<open>
  Claim C4, as the specification states it, fails on the sketch: after key 5 and a
  sample of 20 cm the effective level is 2; a next sample of 35 cm is valid and not below
  the safe threshold 35 of level 5, and the tick leaves the effective level at 2.
\<close>

theorem at_threshold_level_not_restored:
  "0 < commandedLevel (run [pass_key5_20cm])
   \<and> computeSafeCm (commandedLevel (run [pass_key5_20cm])) \<le> 35
   \<and> effectiveLevel (sampleTick 120 35 (run [pass_key5_20cm])) = 2
   \<and> commandedLevel (sampleTick 120 35 (run [pass_key5_20cm])) = 5"
  by (simp add: sketch_defs tunables passes)

text \<open>
  Claim C4, amended. For every commanded level \<open>L\<close> in \<open>[1, 9]\<close> and every sample \<open>d\<close>
  above the safe threshold of \<open>L\<close> plus the hysteresis margin, a regulation tick yields
  effective level \<open>L\<close> (and clears the reducing flag), whatever the effective level was.
\<close>

theorem clear_restores_level:
  assumes "0 < L" "L \<le> 9" "commandedLevel s = L" "computeSafeCm L + HYSTERESIS_CM < d"
  shows "effectiveLevel (sampleTick now d s) = L \<and> \<not> reducing (sampleTick now d s)"
proof -
  let ?s = "s\<lparr>lastPing := now, distanceCm := d\<rparr>"
  have "regulate ?s = applyLevel L (?s\<lparr>reducing := False\<rparr>)"
    using regulate_clear [of ?s] assms by simp
  then show ?thesis
    using assms(1,2) by (simp add: sampleTick_def constrain_def)
qed

theorem clear_restores_level_witness:
  "(0::int) < 5 \<and> (5::int) \<le> 9 \<and> commandedLevel (run [pass_key5_20cm]) = 5
   \<and> computeSafeCm 5 + HYSTERESIS_CM < 39
   \<and> effectiveLevel (run [pass_key5_20cm]) = 2
   \<and> effectiveLevel (sampleTick 120 39 (run [pass_key5_20cm])) = 5
   \<and> \<not> reducing (sampleTick 120 39 (run [pass_key5_20cm]))"
proof -
  have s: "commandedLevel (run [pass_key5_20cm]) = 5"
    "effectiveLevel (run [pass_key5_20cm]) = 2"
    by (simp_all add: sketch_defs tunables passes)
  have b: "computeSafeCm 5 + HYSTERESIS_CM < 39"
    by (simp add: computeSafeCm_def tunables)
  show ?thesis
    using clear_restores_level [of 5 "run [pass_key5_20cm]" 39 120] s b by simp
qed

text \<open>
  Claim C5. For every commanded level \<open>L\<close> in \<open>[0, 9]\<close>, a regulation tick whose ping
  times out (pulse width 0, which \<^verbatim>\<open>readUltrasonicCm\<close> turns into the sample \<open>-1\<close>) sets
  the effective level to \<open>L\<close> and the reducing flag to false, with the stepper at the
  rate of \<open>L\<close>; the pass returns a state like any other, no error value exists.
\<close>

theorem noecho_runs_at_commanded_level:
  assumes "0 \<le> L" "L \<le> 9" "commandedLevel s = L" "pingDue (millis inp) s"
    "echoDuration inp = 0"
  shows "distanceCm (pingBlock inp s) = - 1
         \<and> effectiveLevel (pingBlock inp s) = L
         \<and> \<not> reducing (pingBlock inp s)
         \<and> stepperRpm (pingBlock inp s) = levelToRpm L"
proof -
  let ?s = "s\<lparr>lastPing := millis inp, distanceCm := - 1\<rparr>"
  have d: "readUltrasonicCm (echoDuration inp) = - 1"
    using assms(5) by (simp add: readUltrasonicCm_def)
  have "regulate ?s = applyLevel L (?s\<lparr>reducing := False\<rparr>)"
    using regulate_noecho [of ?s] assms(3) by simp
  then show ?thesis
    using assms(1,2,4) d by (simp add: pingBlock_def sampleTick_def constrain_def)
qed

theorem noecho_runs_at_commanded_level_witness:
  "(0::int) \<le> 5 \<and> (5::int) \<le> 9 \<and> commandedLevel (run [pass_key5_20cm]) = 5
   \<and> pingDue (millis (pass_idle 120 0)) (run [pass_key5_20cm])
   \<and> echoDuration (pass_idle 120 0) = 0
   \<and> effectiveLevel (run [pass_key5_20cm]) = 2
   \<and> distanceCm (pingBlock (pass_idle 120 0) (run [pass_key5_20cm])) = - 1
   \<and> effectiveLevel (pingBlock (pass_idle 120 0) (run [pass_key5_20cm])) = 5
   \<and> \<not> reducing (pingBlock (pass_idle 120 0) (run [pass_key5_20cm]))
   \<and> stepperRpm (pingBlock (pass_idle 120 0) (run [pass_key5_20cm])) = 21 / 2"
proof -
  have s: "commandedLevel (run [pass_key5_20cm]) = 5"
    "effectiveLevel (run [pass_key5_20cm]) = 2"
    "lastPing (run [pass_key5_20cm]) = 60"
    by (simp_all add: sketch_defs tunables passes)
  have p: "pingDue (millis (pass_idle 120 0)) (run [pass_key5_20cm])"
    "echoDuration (pass_idle 120 0) = 0"
    by (simp_all add: pingDue_def s tunables pass_idle_def)
  have r: "levelToRpm 5 = 21 / 2"
    by (simp add: levelToRpm_def tunables)
  show ?thesis
    using noecho_runs_at_commanded_level [of 5 "run [pass_key5_20cm]" "pass_idle 120 0"] s p r
    by simp
qed

section \<open>The alert indicator\<close>

text \<open>
  Claim C6. The alert indicator is a two-state hysteresis machine that starts OFF: on
  every tick, from every state, a valid sample below the ON threshold (20 cm) turns it
  ON, it stays ON for valid samples from the ON to the OFF threshold, a valid sample
  above the OFF threshold (25 cm) turns it OFF, and a sample without echo leaves it as it
  was. From OFF a valid sample at or above the ON threshold leaves it OFF, so between the
  thresholds the state is the one it had: the five cases fix the next state for every
  state and sample. The LED pin is written with the state.
\<close>

theorem alert_hysteresis:
  "\<not> ledState setup_sketch
   \<and> (0 \<le> d \<and> d < LED_ON_CM \<longrightarrow> ledState (sampleTick now d s))
   \<and> (ledState s \<and> LED_ON_CM \<le> d \<and> d \<le> LED_OFF_CM \<longrightarrow> ledState (sampleTick now d s))
   \<and> (\<not> ledState s \<and> LED_ON_CM \<le> d \<longrightarrow> \<not> ledState (sampleTick now d s))
   \<and> (LED_OFF_CM < d \<longrightarrow> \<not> ledState (sampleTick now d s))
   \<and> (d < 0 \<longrightarrow> ledState (sampleTick now d s) = ledState s)
   \<and> ledPin (sampleTick now d s) = ledState (sampleTick now d s)"
  by (simp add: sampleTick_def ledControl_def Let_def setup_sketch_def globals0_def
      applyLevel_def tunables)

text \<open>
  The run 19, 21, 26, 21 cm from the start: ON, still ON, OFF, still OFF. The sample
  21 cm gives ON after 19 cm and OFF after 26 cm. A sample of 22 cm right after the start
  leaves the indicator OFF, and a sample without echo leaves it ON when it is ON.
\<close>

theorem alert_hysteresis_witness:
  "\<not> ledState setup_sketch
   \<and> (0::int) \<le> 19 \<and> 19 < LED_ON_CM
   \<and> ledState (sampleTick 60 19 setup_sketch)
   \<and> LED_ON_CM \<le> 21 \<and> 21 \<le> LED_OFF_CM
   \<and> ledState (sampleTick 120 21 (sampleTick 60 19 setup_sketch))
   \<and> LED_OFF_CM < 26
   \<and> \<not> ledState (sampleTick 180 26 (sampleTick 120 21 (sampleTick 60 19 setup_sketch)))
   \<and> \<not> ledState (sampleTick 240 21
           (sampleTick 180 26 (sampleTick 120 21 (sampleTick 60 19 setup_sketch))))
   \<and> LED_ON_CM \<le> 22
   \<and> \<not> ledState (sampleTick 60 22 setup_sketch)
   \<and> ledState (sampleTick 180 (- 1) (sampleTick 120 21 (sampleTick 60 19 setup_sketch)))"
proof -
  let ?s1 = "sampleTick 60 19 setup_sketch"
  let ?s2 = "sampleTick 120 21 ?s1"
  let ?s3 = "sampleTick 180 26 ?s2"
  have t: "(0::int) \<le> 19 \<and> 19 < LED_ON_CM" "LED_ON_CM \<le> 21 \<and> 21 \<le> LED_OFF_CM"
    "LED_OFF_CM < 26" "LED_ON_CM \<le> 22"
    by (simp_all add: tunables)
  have start: "\<not> ledState setup_sketch"
    using alert_hysteresis [where d = 19 and now = 60 and s = setup_sketch] by simp
  have on1: "ledState ?s1"
    using alert_hysteresis [where d = 19 and now = 60 and s = setup_sketch] t by simp
  have on2: "ledState ?s2"
    using alert_hysteresis [where d = 21 and now = 120 and s = ?s1] t on1 by simp
  have off3: "\<not> ledState ?s3"
    using alert_hysteresis [where d = 26 and now = 180 and s = ?s2] t by simp
  have off4: "\<not> ledState (sampleTick 240 21 ?s3)"
    using alert_hysteresis [where d = 21 and now = 240 and s = ?s3] t off3 by simp
  have off0: "\<not> ledState (sampleTick 60 22 setup_sketch)"
    using alert_hysteresis [where d = 22 and now = 60 and s = setup_sketch] t start by simp
  have keep: "ledState (sampleTick 180 (- 1) ?s2)"
    using alert_hysteresis [where d = "- 1" and now = 180 and s = ?s2] on2 by simp
  show ?thesis
    using t start on1 on2 off3 off4 off0 keep by simp
qed

section \<open>The status lines\<close>

text \<open>The first line is 16 characters whatever the numbers are: cut at 16, padded to 16.\<close>

lemma first_line_16_columns: "length (lcdLine1 s) = 16"
  by (simp add: lcdLine1_def print_padded_def line1_def)

text \<open>
  Claim C7 says that every line written to the display is 16 characters wide. The sketch
  pads to 16 and misses on the second line: the obstacle message is 17 characters, so
  the padding loop of line 136 never runs, and the normal-mode message is 15 characters
  and is printed without padding. On the panel the normal-mode message then leaves the
  16th column of the obstacle message standing.
\<close>

theorem second_line_not_16_columns:
  "distanceCm (run [pass_key9_noecho, pass_key1_16cm]) = 16
   \<and> lcdLine2 (run [pass_key9_noecho, pass_key1_16cm]) = ''Obstacle Detected''
   \<and> length (lcdLine2 (run [pass_key9_noecho, pass_key1_16cm])) = 17
   \<and> distanceCm (run [pass_key9_noecho, pass_key1_16cm, pass_idle 240 0]) = - 1
   \<and> lcdLine2 (run [pass_key9_noecho, pass_key1_16cm, pass_idle 240 0]) = ''MODE: NORMAL   ''
   \<and> length (lcdLine2 (run [pass_key9_noecho, pass_key1_16cm, pass_idle 240 0])) = 15
   \<and> visible (lcdRow1 (run [pass_key9_noecho, pass_key1_16cm, pass_idle 240 0]))
       = ''MODE: NORMAL   e''"
  by code_simp

section \<open>Commands and the two levels\<close>

text \<open>
  Claim C10. Accepting a valid command code updates the commanded level only: command
  handling leaves the effective level, the reducing flag and the speed set on the stepper
  as they are, and so does a whole pass of the loop in which no ping is due; they are
  recomputed at the next distance-sampling tick.
\<close>

theorem command_sets_commanded_level_only:
  "(levelFromIrCommand cmd = lvl \<and> 0 \<le> lvl \<and> lvl \<le> 9 \<longrightarrow>
      irHandling (Some (False, cmd)) s = s\<lparr>commandedLevel := lvl\<rparr>)
   \<and> effectiveLevel (irHandling ir s) = effectiveLevel s
   \<and> reducing (irHandling ir s) = reducing s
   \<and> stepperRpm (irHandling ir s) = stepperRpm s
   \<and> (\<not> pingDue (millis inp) s \<longrightarrow>
        effectiveLevel (loop inp s) = effectiveLevel s
        \<and> reducing (loop inp s) = reducing s
        \<and> stepperRpm (loop inp s) = stepperRpm s)"
proof -
  have accept: "levelFromIrCommand cmd = lvl \<and> 0 \<le> lvl \<and> lvl \<le> 9 \<longrightarrow>
      irHandling (Some (False, cmd)) s = s\<lparr>commandedLevel := lvl\<rparr>"
    by (simp add: irHandling_def Let_def)
  have idle: "\<not> pingDue (millis inp) s \<longrightarrow>
        effectiveLevel (loop inp s) = effectiveLevel s
        \<and> reducing (loop inp s) = reducing s
        \<and> stepperRpm (loop inp s) = stepperRpm s"
    by (simp add: loop_def pingBlock_def)
  show ?thesis
    using accept idle by simp
qed

theorem command_sets_commanded_level_only_witness:
  "levelFromIrCommand 0x0C = 1
   \<and> irHandling (Some (False, 0x0C)) (run [pass_key9_noecho])
       = (run [pass_key9_noecho])\<lparr>commandedLevel := 1\<rparr>
   \<and> \<not> pingDue (millis pass_key1_early) (run [pass_key9_noecho])
   \<and> effectiveLevel (run [pass_key9_noecho]) = 9
   \<and> commandedLevel (loop pass_key1_early (run [pass_key9_noecho])) = 1
   \<and> effectiveLevel (loop pass_key1_early (run [pass_key9_noecho])) = 9
   \<and> \<not> reducing (loop pass_key1_early (run [pass_key9_noecho]))
   \<and> stepperRpm (loop pass_key1_early (run [pass_key9_noecho])) = 15"
proof -
  let ?s = "run [pass_key9_noecho]"
  have l: "levelFromIrCommand 0x0C = 1"
    by (simp add: levelFromIrCommand_def)
  have s: "effectiveLevel ?s = 9" "\<not> reducing ?s" "stepperRpm ?s = 15" "lastPing ?s = 60"
    by (simp_all add: sketch_defs tunables passes)
  have p: "\<not> pingDue (millis pass_key1_early) ?s"
    by (simp add: pingDue_def s tunables pass_key1_early_def)
  have c: "commandedLevel (loop pass_key1_early ?s) = 1"
    using p by (simp add: loop_def pingBlock_def irHandling_def l pass_key1_early_def)
  show ?thesis
    using command_sets_commanded_level_only
      [where cmd = "0x0C" and lvl = 1 and s = ?s and inp = pass_key1_early] l s p c
    by simp
qed

subsection \<open>Levels stay levels\<close>

lemma run_snoc: "run (inps @ [inp]) = loop inp (run inps)"
  by (simp add: run_def)

lemma irHandling_commanded_range:
  "0 \<le> commandedLevel s \<Longrightarrow> commandedLevel s \<le> 9 \<Longrightarrow>
   0 \<le> commandedLevel (irHandling ir s) \<and> commandedLevel (irHandling ir s) \<le> 9"
  by (simp add: irHandling_def Let_def split: option.splits prod.splits)

lemma regulate_effective_range:
  "0 \<le> effectiveLevel s \<Longrightarrow> effectiveLevel s \<le> 9 \<Longrightarrow>
   0 \<le> effectiveLevel (regulate s) \<and> effectiveLevel (regulate s) \<le> 9"
  by (simp add: regulate_def Let_def constrain_def)

lemma loop_levels_in_range:
  assumes "levels_in_range s"
  shows "levels_in_range (loop inp s)"
proof -
  let ?s1 = "irHandling (irDecoded inp) s"
  have c: "0 \<le> commandedLevel ?s1 \<and> commandedLevel ?s1 \<le> 9"
    using assms by (intro irHandling_commanded_range) (simp_all add: levels_in_range_def)
  have e: "0 \<le> effectiveLevel (pingBlock inp ?s1) \<and> effectiveLevel (pingBlock inp ?s1) \<le> 9"
  proof (cases "pingDue (millis inp) s")
    case True
    let ?s2 = "?s1\<lparr>lastPing := millis inp,
                   distanceCm := readUltrasonicCm (echoDuration inp)\<rparr>"
    have "0 \<le> effectiveLevel (regulate ?s2) \<and> effectiveLevel (regulate ?s2) \<le> 9"
      using assms by (intro regulate_effective_range) (simp_all add: levels_in_range_def)
    then show ?thesis
      using True by (simp add: pingBlock_def sampleTick_def)
  next
    case False
    then show ?thesis
      using assms by (simp add: pingBlock_def levels_in_range_def)
  qed
  have "commandedLevel (pingBlock inp ?s1) = commandedLevel ?s1"
    by (simp add: pingBlock_def)
  then show ?thesis
    using c e by (simp add: levels_in_range_def loop_def)
qed

lemma run_levels_in_range: "levels_in_range (run inps)"
proof (induction inps rule: rev_induct)
  case Nil
  show ?case
    by (simp add: run_def setup_sketch_def globals0_def levels_in_range_def constrain_def)
next
  case (snoc inp inps)
  then show ?case
    by (simp add: run_snoc loop_levels_in_range)
qed

subsection \<open>The relation between the levels after a tick\<close>

lemma sampleTick_level_inv:
  assumes "0 \<le> commandedLevel s" "commandedLevel s \<le> 9" "outsideBand (commandedLevel s) d"
  shows "level_inv (sampleTick now d s)"
proof -
  let ?L = "commandedLevel s"
  let ?s = "s\<lparr>lastPing := now, distanceCm := d\<rparr>"
  have id: "constrain ?L 0 9 = ?L"
    using assms(1,2) by (simp add: constrain_def)
  have "d < 0 \<or> (0 \<le> d \<and> d < computeSafeCm ?L \<and> ?L = 0)
      \<or> (0 \<le> d \<and> d < computeSafeCm ?L \<and> 0 < ?L)
      \<or> computeSafeCm ?L + HYSTERESIS_CM < d"
    using assms(1,3) unfolding outsideBand_def by linarith
  then consider (noecho) "d < 0"
    | (stop) "0 \<le> d" "d < computeSafeCm ?L" "?L = 0"
    | (reduce) "0 \<le> d" "d < computeSafeCm ?L" "0 < ?L"
    | (clear) "computeSafeCm ?L + HYSTERESIS_CM < d"
    by blast
  then show ?thesis
  proof cases
    case noecho
    then have "regulate ?s = applyLevel ?L (?s\<lparr>reducing := False\<rparr>)"
      using regulate_noecho [of ?s] by simp
    then show ?thesis
      by (simp add: level_inv_def sampleTick_def id)
  next
    case stop
    then have "regulate ?s = applyLevel 0 (?s\<lparr>reducing := False\<rparr>)"
      using regulate_stop [of ?s] by simp
    then show ?thesis
      using stop(3) by (simp add: level_inv_def sampleTick_def constrain_def)
  next
    case reduce
    let ?r = "(?L * (max d MIN_CM - MIN_CM)) div (computeSafeCm ?L - MIN_CM)"
    have r: "0 \<le> ?r" "?r < ?L"
      using reduce_less [OF reduce(3,1,2)] by simp_all
    have "regulate ?s = applyLevel ?r (?s\<lparr>reducing := True\<rparr>)"
      using regulate_reduce [of ?s] reduce by simp
    moreover have "constrain ?r 0 9 = ?r"
      using r assms(2) by (simp add: constrain_def)
    ultimately show ?thesis
      using r reduce(1) by (simp add: level_inv_def sampleTick_def)
  next
    case clear
    then have "regulate ?s = applyLevel ?L (?s\<lparr>reducing := False\<rparr>)"
      using regulate_clear [of ?s] by simp
    then show ?thesis
      by (simp add: level_inv_def sampleTick_def id)
  qed
qed

lemma sampleTick_band_level_inv:
  assumes "level_inv s" "computeSafeCm (commandedLevel s) \<le> d"
    "d \<le> computeSafeCm (commandedLevel s) + HYSTERESIS_CM"
  shows "level_inv (sampleTick now d s)"
proof -
  let ?s = "s\<lparr>lastPing := now, distanceCm := d\<rparr>"
  have "regulate ?s = ?s"
    using assms(2,3) by (intro regulate_band) simp_all
  moreover have "0 \<le> d"
    using computeSafeCm_ge [of "commandedLevel s"] assms(2) by simp
  ultimately show ?thesis
    using assms(1) by (auto simp: level_inv_def sampleTick_def split: if_splits)
qed

lemma level_inv_loop:
  "level_inv (loop inp s) = level_inv (pingBlock inp (irHandling (irDecoded inp) s))"
  by (simp add: level_inv_def loop_def)

lemma commandedLevel_loop:
  "commandedLevel (loop inp s) = commandedLevel (irHandling (irDecoded inp) s)"
  by (simp add: loop_def pingBlock_def)

lemma loop_tick_level_inv:
  assumes "levels_in_range s" "pingDue (millis inp) s"
    "outsideBand (commandedLevel (loop inp s)) (readUltrasonicCm (echoDuration inp))"
  shows "level_inv (loop inp s)"
proof -
  let ?s1 = "irHandling (irDecoded inp) s"
  have c: "0 \<le> commandedLevel ?s1 \<and> commandedLevel ?s1 \<le> 9"
    using assms(1) by (intro irHandling_commanded_range) (simp_all add: levels_in_range_def)
  have "level_inv (sampleTick (millis inp) (readUltrasonicCm (echoDuration inp)) ?s1)"
    using c assms(3) by (intro sampleTick_level_inv) (simp_all add: commandedLevel_loop)
  then show ?thesis
    using assms(2) by (simp add: level_inv_loop pingBlock_def)
qed

lemma loop_keeps_level_inv:
  assumes "levels_in_range s" "level_inv s" "commandedLevel (loop inp s) = commandedLevel s"
  shows "level_inv (loop inp s)"
proof -
  let ?s1 = "irHandling (irDecoded inp) s"
  let ?d = "readUltrasonicCm (echoDuration inp)"
  have c: "commandedLevel ?s1 = commandedLevel s"
    using assms(3) by (simp add: commandedLevel_loop)
  have s1: "level_inv ?s1"
    using assms(2) c by (simp add: level_inv_def)
  show ?thesis
  proof (cases "pingDue (millis inp) s")
    case False
    then show ?thesis
      using s1 by (simp add: level_inv_loop pingBlock_def)
  next
    case due: True
    show ?thesis
    proof (cases "outsideBand (commandedLevel (loop inp s)) ?d")
      case True
      then show ?thesis
        using assms(1) due by (intro loop_tick_level_inv)
    next
      case False
      then have "computeSafeCm (commandedLevel ?s1) \<le> ?d"
        "?d \<le> computeSafeCm (commandedLevel ?s1) + HYSTERESIS_CM"
        by (simp_all add: outsideBand_def commandedLevel_loop)
      then have "level_inv (sampleTick (millis inp) ?d ?s1)"
        using s1 by (intro sampleTick_band_level_inv)
      then show ?thesis
        using due by (simp add: level_inv_loop pingBlock_def)
    qed
  qed
qed

text \<open>
  Claim C1, as the specification states it, fails on the sketch. Key 9 with no echo
  gives both levels 9. When key 1 then arrives in a pass without a ping, the commanded
  level is 1 and the effective level is still 9, no sample saying that reduction is
  active. When key 1 arrives in a pass whose sample, 16 cm, lies in the hysteresis band
  \<open>[15, 18]\<close> of level 1, the commanded level becomes 1, the tick changes nothing, and the
  effective level stays 9 with the reducing flag off and the stepper at the rate of
  level 9.
\<close>

theorem level_relation_lost_in_band:
  "commandedLevel (run [pass_key9_noecho, pass_key1_early]) = 1
   \<and> effectiveLevel (run [pass_key9_noecho, pass_key1_early]) = 9
   \<and> \<not> level_inv (run [pass_key9_noecho, pass_key1_early])
   \<and> commandedLevel (run [pass_key9_noecho, pass_key1_16cm]) = 1
   \<and> effectiveLevel (run [pass_key9_noecho, pass_key1_16cm]) = 9
   \<and> distanceCm (run [pass_key9_noecho, pass_key1_16cm]) = 16
   \<and> \<not> reducing (run [pass_key9_noecho, pass_key1_16cm])
   \<and> stepperRpm (run [pass_key9_noecho, pass_key1_16cm]) = levelToRpm 9
   \<and> \<not> level_inv (run [pass_key9_noecho, pass_key1_16cm])"
  by code_simp

text \<open>
  Claim C1, amended. In every reachable state both levels lie in \<open>[0, 9]\<close>. After every
  pass of the loop that runs a regulation tick on a sample outside the hysteresis band of
  the commanded level (no echo, below the safe threshold, or above the threshold plus the
  margin), the effective level is at most the commanded level when a valid sample
  indicates that reduction is active and equals it otherwise. Any other pass keeps that
  relation if it held before and the pass did not change the commanded level.
\<close>

theorem level_relation_outside_band:
  "levels_in_range (run inps)
   \<and> (pingDue (millis inp) (run inps)
        \<and> outsideBand (commandedLevel (loop inp (run inps)))
             (readUltrasonicCm (echoDuration inp))
      \<longrightarrow> level_inv (loop inp (run inps)))
   \<and> (level_inv (run inps) \<and> commandedLevel (loop inp (run inps)) = commandedLevel (run inps)
      \<longrightarrow> level_inv (loop inp (run inps)))"
  using run_levels_in_range [of inps]
    loop_tick_level_inv [of "run inps" inp] loop_keeps_level_inv [of "run inps" inp]
  by blast

theorem level_relation_outside_band_witness:
  "levels_in_range (run [pass_key9_noecho])
   \<and> pingDue (millis (pass_idle 120 1160)) (run [pass_key9_noecho])
   \<and> outsideBand (commandedLevel (loop (pass_idle 120 1160) (run [pass_key9_noecho])))
        (readUltrasonicCm (echoDuration (pass_idle 120 1160)))
   \<and> level_inv (loop (pass_idle 120 1160) (run [pass_key9_noecho]))
   \<and> effectiveLevel (loop (pass_idle 120 1160) (run [pass_key9_noecho])) = 3
   \<and> level_inv (run [pass_key9_noecho])
   \<and> commandedLevel (loop (pass_idle 120 3364) (run [pass_key9_noecho]))
       = commandedLevel (run [pass_key9_noecho])
   \<and> level_inv (loop (pass_idle 120 3364) (run [pass_key9_noecho]))"
proof -
  let ?s = "run [pass_key9_noecho]"
  have due: "pingDue (millis (pass_idle 120 1160)) ?s"
    by code_simp
  have out: "outsideBand (commandedLevel (loop (pass_idle 120 1160) ?s))
        (readUltrasonicCm (echoDuration (pass_idle 120 1160)))"
    by code_simp
  have e: "effectiveLevel (loop (pass_idle 120 1160) ?s) = 3"
    by code_simp
  have inv: "level_inv ?s"
    by code_simp
  have same: "commandedLevel (loop (pass_idle 120 3364) ?s) = commandedLevel ?s"
    by code_simp
  show ?thesis
    using level_relation_outside_band [of "[pass_key9_noecho]" "pass_idle 120 1160"]
      level_relation_outside_band [of "[pass_key9_noecho]" "pass_idle 120 3364"]
      due out e inv same
    by simp
qed

end
